theory Spec2Isabelle
  imports Main "HOL-Library.Multiset"
begin

section \<open>Python values\<close>

text \<open>
  A Python \<open>bytes\<close> object is a list of 8-bit characters and a Python \<open>str\<close> is a list of
  Unicode code points. ASCII literals of the source are written as HOL string literals;
  \<open>ascii\<close> turns one into a \<open>str\<close>.
\<close>

type_synonym bytes = "char list"
type_synonym str = "nat list"

definition ascii :: "string \<Rightarrow> str" where
  "ascii s = map of_char s"

text \<open>
  Exceptions are values. \<open>cause\<close> is the chained exception of a \<open>raise ... from ...\<close>;
  the command line that \<open>CalledProcessError\<close> carries is not modelled.
\<close>

datatype cause =
    NoCause
  | FileNotFoundError str
  | PermissionError str
  | OSError str
  | CalledProcessError int bytes

datatype error =
    BarCodeReaderException str str cause
  | NameError string
  | KeyError str
  | IndexError
  | ValueError
  | UnicodeDecodeError
  | UnicodeEncodeError

subsection \<open>Sequence operations shared by \<open>bytes\<close> and \<open>str\<close>\<close>

definition startswith :: "'a list \<Rightarrow> 'a list \<Rightarrow> bool" where
  "startswith s p \<longleftrightarrow> take (length p) s = p"

definition endswith :: "'a list \<Rightarrow> 'a list \<Rightarrow> bool" where
  "endswith s p \<longleftrightarrow> length p \<le> length s \<and> drop (length s - length p) s = p"

definition removeprefix :: "'a list \<Rightarrow> 'a list \<Rightarrow> 'a list" where
  "removeprefix s p = (if startswith s p then drop (length p) s else s)"

definition strip_with :: "('a \<Rightarrow> bool) \<Rightarrow> 'a list \<Rightarrow> 'a list" where
  "strip_with sp s = rev (dropWhile sp (rev (dropWhile sp s)))"

definition replace_char :: "'a \<Rightarrow> 'a \<Rightarrow> 'a list \<Rightarrow> 'a list" where
  "replace_char old new s = map (\<lambda>c. if c = old then new else c) s"

text \<open>
  \<open>s.rsplit(sep, 1)\<close>: split at the last occurrence of a non-empty separator, or the whole
  sequence alone when there is none. \<open>rsplit_at sep pre s\<close> scans \<open>s\<close> from the left,
  \<open>pre\<close> being what is already behind the scan, and keeps the last hit.
\<close>

fun rsplit_at :: "'a list \<Rightarrow> 'a list \<Rightarrow> 'a list \<Rightarrow> ('a list \<times> 'a list) option" where
  "rsplit_at sep pre [] = None"
| "rsplit_at sep pre (c # cs) =
     (case rsplit_at sep (pre @ [c]) cs of
        Some r \<Rightarrow> Some r
      | None \<Rightarrow> if startswith (c # cs) sep then Some (pre, drop (length sep) (c # cs))
                else None)"

definition rsplit1 :: "'a list \<Rightarrow> 'a list \<Rightarrow> 'a list list" where
  "rsplit1 s sep = (case rsplit_at sep [] s of None \<Rightarrow> [s] | Some (a, b) \<Rightarrow> [a, b])"

subsection \<open>\<open>bytes\<close> methods\<close>

text \<open>The whitespace of \<open>bytes.strip\<close>, of \<open>\s\<close> in a bytes pattern and of \<open>bytes.fromhex\<close>.\<close>

definition ascii_space :: "nat \<Rightarrow> bool" where
  "ascii_space n \<longleftrightarrow> n = 32 \<or> (9 \<le> n \<and> n \<le> 13)"

definition bytes_isspace :: "char \<Rightarrow> bool" where
  "bytes_isspace c \<longleftrightarrow> ascii_space (of_char c)"

definition bytes_isdigit :: "char \<Rightarrow> bool" where
  "bytes_isdigit c \<longleftrightarrow> 48 \<le> (of_char c :: nat) \<and> (of_char c :: nat) \<le> 57"

definition bytes_strip :: "bytes \<Rightarrow> bytes" where
  "bytes_strip = strip_with bytes_isspace"

text \<open>
  \<open>bytes.splitlines(keepends)\<close> breaks after \<open>\n\<close>, after \<open>\r\n\<close> and after a lone \<open>\r\<close>.
  The first argument of \<open>splitlines_from\<close> is the line read so far.
\<close>

fun splitlines_from :: "bool \<Rightarrow> bytes \<Rightarrow> bytes \<Rightarrow> bytes list" where
  "splitlines_from keep cur [] = (if cur = [] then [] else [cur])"
| "splitlines_from keep cur (c # cs) =
     (if c = CHR 0x0A then (cur @ (if keep then [c] else [])) # splitlines_from keep [] cs
      else if c = CHR 0x0D then
        (case cs of
           [] \<Rightarrow> [cur @ (if keep then [c] else [])]
         | d # ds \<Rightarrow>
             if d = CHR 0x0A then (cur @ (if keep then [c, d] else [])) # splitlines_from keep [] ds
             else (cur @ (if keep then [c] else [])) # splitlines_from keep [] (d # ds))
      else splitlines_from keep (cur @ [c]) cs)"

definition bytes_splitlines :: "bool \<Rightarrow> bytes \<Rightarrow> bytes list" where
  "bytes_splitlines keep s = splitlines_from keep [] s"

subsection \<open>\<open>bytes.decode()\<close>: strict UTF-8, and the \<open>errors='replace'\<close> variant\<close>

definition utf8_cont :: "nat \<Rightarrow> bool" where
  "utf8_cont n \<longleftrightarrow> 128 \<le> n \<and> n \<le> 191"

text \<open>
  \<open>utf8_step b rest\<close> reads the character that starts with the byte \<open>b\<close>. It returns the code
  point, or \<open>None\<close> for an ill-formed sequence, and the number of bytes after \<open>b\<close> that
  belong to the character or to the ill-formed prefix (the decoder resumes behind them).
  The second byte of a three- or four-byte character is range-checked, which excludes
  overlong forms, surrogates and code points above U+10FFFF.
\<close>

definition utf8_second_ok :: "nat \<Rightarrow> nat \<Rightarrow> bool" where
  "utf8_second_ok b0 b1 \<longleftrightarrow>
     utf8_cont b1 \<and>
     (b0 = 0xE0 \<longrightarrow> 0xA0 \<le> b1) \<and> (b0 = 0xED \<longrightarrow> b1 < 0xA0) \<and>
     (b0 = 0xF0 \<longrightarrow> 0x90 \<le> b1) \<and> (b0 = 0xF4 \<longrightarrow> b1 < 0x90)"

definition utf8_step :: "nat \<Rightarrow> nat list \<Rightarrow> nat option \<times> nat" where
  "utf8_step b0 rest =
     (if b0 < 0x80 then (Some b0, 0)
      else if b0 < 0xC2 \<or> 0xF4 < b0 then (None, 0)
      else if b0 < 0xE0 then
        (case rest of
           b1 # _ \<Rightarrow> if utf8_cont b1 then (Some ((b0 - 0xC0) * 64 + (b1 - 0x80)), 1)
                     else (None, 0)
         | [] \<Rightarrow> (None, 0))
      else if b0 < 0xF0 then
        (case rest of
           b1 # b2 # _ \<Rightarrow>
             if \<not> utf8_second_ok b0 b1 then (None, 0)
             else if \<not> utf8_cont b2 then (None, 1)
             else (Some ((b0 - 0xE0) * 4096 + (b1 - 0x80) * 64 + (b2 - 0x80)), 2)
         | [b1] \<Rightarrow> if utf8_second_ok b0 b1 then (None, 1) else (None, 0)
         | [] \<Rightarrow> (None, 0))
      else
        (case rest of
           b1 # b2 # b3 # _ \<Rightarrow>
             if \<not> utf8_second_ok b0 b1 then (None, 0)
             else if \<not> utf8_cont b2 then (None, 1)
             else if \<not> utf8_cont b3 then (None, 2)
             else (Some ((b0 - 0xF0) * 262144 + (b1 - 0x80) * 4096
                         + (b2 - 0x80) * 64 + (b3 - 0x80)), 3)
         | [b1, b2] \<Rightarrow>
             if \<not> utf8_second_ok b0 b1 then (None, 0)
             else if \<not> utf8_cont b2 then (None, 1)
             else (None, 2)
         | [b1] \<Rightarrow> if utf8_second_ok b0 b1 then (None, 1) else (None, 0)
         | [] \<Rightarrow> (None, 0)))"

fun utf8_decode_nat :: "bool \<Rightarrow> nat list \<Rightarrow> error + str" where
  "utf8_decode_nat replace [] = Inr []"
| "utf8_decode_nat replace (b # bs) =
     (case utf8_step b bs of
        (Some cp, k) \<Rightarrow>
          (case utf8_decode_nat replace (drop k bs) of
             Inl e \<Rightarrow> Inl e
           | Inr cs \<Rightarrow> Inr (cp # cs))
      | (None, k) \<Rightarrow>
          if replace then
            (case utf8_decode_nat replace (drop k bs) of
               Inl e \<Rightarrow> Inl e
             | Inr cs \<Rightarrow> Inr (0xFFFD # cs))
          else Inl UnicodeDecodeError)"

definition decode :: "bytes \<Rightarrow> error + str" where
  "decode b = utf8_decode_nat False (map of_char b)"

definition decode_replace :: "bytes \<Rightarrow> str" where
  "decode_replace b = (case utf8_decode_nat True (map of_char b) of Inr s \<Rightarrow> s | Inl _ \<Rightarrow> [])"

subsection \<open>\<open>bytes.fromhex\<close>\<close>

definition hex_value :: "nat \<Rightarrow> nat option" where
  "hex_value n =
     (if 48 \<le> n \<and> n \<le> 57 then Some (n - 48)
      else if 97 \<le> n \<and> n \<le> 102 then Some (n - 87)
      else if 65 \<le> n \<and> n \<le> 70 then Some (n - 55)
      else None)"

text \<open>
  \<open>bytes.fromhex(s)\<close> skips ASCII whitespace in front of a byte and then wants two hexadecimal
  digits next to each other; anything else is a \<open>ValueError\<close>.
\<close>

fun fromhex :: "str \<Rightarrow> error + bytes" where
  "fromhex [] = Inr []"
| "fromhex [c] = (if ascii_space c then Inr [] else Inl ValueError)"
| "fromhex (c # d # ds) =
     (if ascii_space c then fromhex (d # ds)
      else
        (case (hex_value c, hex_value d) of
           (Some h, Some l) \<Rightarrow>
             (case fromhex ds of
                Inl e \<Rightarrow> Inl e
              | Inr bs \<Rightarrow> Inr (char_of (h * 16 + l) # bs))
         | _ \<Rightarrow> Inl ValueError))"

subsection \<open>Regular expressions\<close>

text \<open>
  Every pattern of the source is a sequence of literal characters and of character classes
  under a greedy quantifier, some of them a capturing group. \<open>Rep p lo hi\<close> is the class \<open>p\<close>
  repeated at least \<open>lo\<close> and at most \<open>hi\<close> times; \<open>Cap\<close> is the same inside parentheses.
\<close>

datatype 'a re_item =
    Lit 'a
  | Rep "'a \<Rightarrow> bool" nat "nat option"
  | Cap "'a \<Rightarrow> bool" nat "nat option"

definition lits :: "'a list \<Rightarrow> 'a re_item list" where
  "lits s = map Lit s"

definition many0 :: "('a \<Rightarrow> bool) \<Rightarrow> 'a re_item" where
  "many0 p = Rep p 0 None"

definition many1 :: "('a \<Rightarrow> bool) \<Rightarrow> 'a re_item" where
  "many1 p = Rep p 1 None"

definition optional :: "'a \<Rightarrow> 'a re_item" where
  "optional c = Rep (\<lambda>x. x = c) 0 (Some 1)"

definition group1 :: "('a \<Rightarrow> bool) \<Rightarrow> 'a re_item" where
  "group1 p = Cap p 1 None"

text \<open>
  A greedy quantifier first takes as many characters as it can and gives them back one at
  a time while the rest of the pattern fails: \<open>re_back k s lo n\<close> tries the rest \<open>k\<close> of the
  pattern behind \<open>n\<close>, \<open>n - 1\<close>, ..., \<open>lo\<close> characters of \<open>s\<close>. A match is the list of its groups
  and the input behind it.
\<close>

fun re_back :: "('a list \<Rightarrow> 'r option) \<Rightarrow> 'a list \<Rightarrow> nat \<Rightarrow> nat \<Rightarrow> (nat \<times> 'r) option" where
  "re_back k s lo 0 = (if 0 < lo then None else map_option (Pair 0) (k s))"
| "re_back k s lo (Suc m) =
     (if Suc m < lo then None
      else
        (case k (drop (Suc m) s) of
           Some r \<Rightarrow> Some (Suc m, r)
         | None \<Rightarrow> re_back k s lo m))"

lemma re_back_cong [fundef_cong]:
  "(\<And>t. k t = k' t) \<Longrightarrow> s = s' \<Longrightarrow> lo = lo' \<Longrightarrow> n = n' \<Longrightarrow> re_back k s lo n = re_back k' s' lo' n'"
proof -
  assume "\<And>t. k t = k' t"
  then have "k = k'" by (rule ext)
  moreover assume "s = s'" "lo = lo'" "n = n'"
  ultimately show ?thesis by simp
qed

definition greedy :: "('a \<Rightarrow> bool) \<Rightarrow> nat option \<Rightarrow> 'a list \<Rightarrow> nat" where
  "greedy p hi s =
     (case hi of
        None \<Rightarrow> length (takeWhile p s)
      | Some h \<Rightarrow> min h (length (takeWhile p s)))"

fun re_match :: "'a re_item list \<Rightarrow> 'a list \<Rightarrow> ('a list list \<times> 'a list) option" where
  "re_match [] s = Some ([], s)"
| "re_match (Lit c # r) s =
     (case s of
        [] \<Rightarrow> None
      | x # xs \<Rightarrow> if x = c then re_match r xs else None)"
| "re_match (Rep p lo hi # r) s =
     (case re_back (\<lambda>t. re_match r t) s lo (greedy p hi s) of
        None \<Rightarrow> None
      | Some (n, gs, rest) \<Rightarrow> Some (gs, rest))"
| "re_match (Cap p lo hi # r) s =
     (case re_back (\<lambda>t. re_match r t) s lo (greedy p hi s) of
        None \<Rightarrow> None
      | Some (n, gs, rest) \<Rightarrow> Some (take n s # gs, rest))"

text \<open>
  \<open>pattern.findall(s)\<close> and \<open>pattern.sub(repl, s)\<close> look for a match at each position from
  the left and go on behind a match. \<open>skip\<close> counts the characters of the last match that
  are still to be passed.
\<close>

fun re_findall_from :: "'a re_item list \<Rightarrow> nat \<Rightarrow> 'a list \<Rightarrow> 'a list list list" where
  "re_findall_from pat skip [] = []"
| "re_findall_from pat skip (c # cs) =
     (if 0 < skip then re_findall_from pat (skip - 1) cs
      else
        (case re_match pat (c # cs) of
           None \<Rightarrow> re_findall_from pat 0 cs
         | Some (gs, rest) \<Rightarrow> gs # re_findall_from pat (length cs - length rest) cs))"

definition re_findall :: "'a re_item list \<Rightarrow> 'a list \<Rightarrow> 'a list list list" where
  "re_findall pat s = re_findall_from pat 0 s"

fun re_sub_from :: "'a re_item list \<Rightarrow> ('a list list \<Rightarrow> 'a list) \<Rightarrow> nat \<Rightarrow> 'a list \<Rightarrow> 'a list" where
  "re_sub_from pat repl skip [] = []"
| "re_sub_from pat repl skip (c # cs) =
     (if 0 < skip then re_sub_from pat repl (skip - 1) cs
      else
        (case re_match pat (c # cs) of
           None \<Rightarrow> c # re_sub_from pat repl 0 cs
         | Some (gs, rest) \<Rightarrow> repl gs @ re_sub_from pat repl (length cs - length rest) cs))"

definition re_sub :: "'a re_item list \<Rightarrow> ('a list list \<Rightarrow> 'a list) \<Rightarrow> 'a list \<Rightarrow> 'a list" where
  "re_sub pat repl s = re_sub_from pat repl 0 s"

section \<open>The result type \<open>BarCode\<close>\<close>

text \<open>
  \<open>float(text)\<close> is applied to text that matched \<open>[-\d.]+\<close> only. Such text is a number for
  \<open>float\<close> when it is an optional minus sign and then digits with at most one point among
  them; otherwise \<open>float\<close> raises \<open>ValueError\<close>. The binary value is not modelled: a float is
  kept as the text it was read from.
\<close>

datatype pyfloat = Float str

definition float_syntax :: "('a \<Rightarrow> bool) \<Rightarrow> 'a \<Rightarrow> 'a \<Rightarrow> 'a list \<Rightarrow> bool" where
  "float_syntax digit sign dot s \<longleftrightarrow>
     (let t = (case s of [] \<Rightarrow> [] | c # cs \<Rightarrow> if c = sign then cs else s)
      in (\<forall>c \<in> set t. digit c \<or> c = dot) \<and> (\<exists>c \<in> set t. digit c)
         \<and> length (filter (\<lambda>c. c = dot) t) \<le> 1)"

definition bytes_float :: "bytes \<Rightarrow> error + pyfloat" where
  "bytes_float b =
     (if float_syntax bytes_isdigit (CHR ''-'') (CHR ''.'') b then Inr (Float (map of_char b))
      else Inl ValueError)"

type_synonym point = "pyfloat \<times> pyfloat"

text \<open>
  The attributes of a \<open>BarCode\<close>, in the order of the parameters of \<open>__init__\<close>. Every
  attribute can be \<open>None\<close>.
\<close>

record BarCode =
  uri :: "str option"
  format :: "str option"
  type :: "str option"
  raw :: "str option"
  parsed :: "str option"
  raw_bits :: "bytes option"
  points :: "point list option"

definition BarCode_init ::
  "str option \<Rightarrow> str option \<Rightarrow> str option \<Rightarrow> str option \<Rightarrow> str option \<Rightarrow> bytes option
     \<Rightarrow> point list option \<Rightarrow> BarCode" where
  "BarCode_init u f t r p rb pts =
     \<lparr>uri = u, format = f, type = t, raw = r, parsed = p, raw_bits = rb, points = pts\<rparr>"

text \<open>\<open>__bool__\<close>: \<open>bool(self.raw)\<close>, false for \<open>None\<close> and for the empty string.\<close>

definition BarCode_bool :: "BarCode \<Rightarrow> bool" where
  "BarCode_bool c = (case raw c of None \<Rightarrow> False | Some r \<Rightarrow> r \<noteq> [])"

section \<open>\<open>BarCode.parse_zxing\<close>\<close>

datatype CLROutputBlock = UNKNOWN | RAW | PARSED | POINTS | RAW_BITS

text \<open>The three patterns of \<open>parse_zxing\<close>, item by item.\<close>

definition header_re :: "char re_item list" where
  "header_re =
     [group1 (\<lambda>c. \<not> bytes_isspace c)] @ lits '' (format:'' @
     [many0 bytes_isspace, group1 (\<lambda>c. c \<noteq> CHR '','')] @ lits '','' @
     [many0 bytes_isspace] @ lits ''type:'' @
     [many0 bytes_isspace, group1 (\<lambda>c. c \<noteq> CHR '')'')] @ lits '')''"

definition found_re :: "char re_item list" where
  "found_re =
     lits ''Found'' @ [many1 bytes_isspace, many1 bytes_isdigit, many1 bytes_isspace] @
     lits ''result'' @ [many1 bytes_isspace] @ lits ''point'' @ [optional (CHR ''s'')]"

definition coord :: "char \<Rightarrow> bool" where
  "coord c \<longleftrightarrow> c = CHR ''-'' \<or> bytes_isdigit c \<or> c = CHR ''.''"

definition point_re :: "char re_item list" where
  "point_re =
     [many0 bytes_isspace] @ lits ''Point'' @ [many0 bytes_isspace, many1 bytes_isdigit] @
     lits '':'' @ [many0 bytes_isspace] @ lits ''('' @ [group1 coord] @ lits '','' @
     [group1 coord] @ lits '')''"

text \<open>The local variables of \<open>parse_zxing\<close> that the loop over the lines updates.\<close>

record zxing_vars =
  block :: CLROutputBlock
  v_uri :: "str option"
  v_format :: "str option"
  v_type :: "str option"
  v_raw :: bytes
  v_parsed :: bytes
  v_raw_bits :: bytes
  v_points :: "point list"

definition zxing_start :: zxing_vars where
  "zxing_start =
     \<lparr>block = UNKNOWN, v_uri = None, v_format = None, v_type = None,
      v_raw = [], v_parsed = [], v_raw_bits = [], v_points = []\<rparr>"

text \<open>What one pass through the loop body does: raise, return, or go on to the next line.\<close>

datatype flow = Raise error | Return BarCode | Next zxing_vars

definition header_line :: "zxing_vars \<Rightarrow> bytes \<Rightarrow> flow" where
  "header_line v l =
     (case re_match header_re l of
        Some ([g1, g2, g3], _) \<Rightarrow>
          (case decode g1 of
             Inl e \<Rightarrow> Raise e
           | Inr u \<Rightarrow>
               (case decode g2 of
                  Inl e \<Rightarrow> Raise e
                | Inr f \<Rightarrow>
                    (case decode g3 of
                       Inl e \<Rightarrow> Raise e
                     | Inr t \<Rightarrow> Next (v\<lparr>v_uri := Some u, v_format := Some f, v_type := Some t\<rparr>))))
      | Some _ \<Rightarrow> Raise IndexError
      | None \<Rightarrow>
          if startswith l ''Raw result:'' then Next (v\<lparr>block := RAW\<rparr>) else Next v)"

definition point_line :: "zxing_vars \<Rightarrow> bytes \<Rightarrow> flow" where
  "point_line v l =
     (case re_match point_re l of
        Some ([g1, g2], _) \<Rightarrow>
          (case bytes_float g1 of
             Inl e \<Rightarrow> Raise e
           | Inr x \<Rightarrow>
               (case bytes_float g2 of
                  Inl e \<Rightarrow> Raise e
                | Inr y \<Rightarrow> Next (v\<lparr>v_points := v_points v @ [(x, y)]\<rparr>)))
      | Some _ \<Rightarrow> Raise IndexError
      | None \<Rightarrow> Next v)"

definition zxing_line :: "zxing_vars \<Rightarrow> bytes \<Rightarrow> flow" where
  "zxing_line v l =
     (case block v of
        UNKNOWN \<Rightarrow>
          if endswith (bytes_strip l) '': No barcode found'' then
            (case decode (hd (rsplit1 l '':'')) of
               Inl e \<Rightarrow> Raise e
             | Inr u \<Rightarrow> Return (BarCode_init (Some u) None None None None None None))
          else header_line v l
      | RAW \<Rightarrow>
          if startswith l ''Parsed result:'' then Next (v\<lparr>block := PARSED\<rparr>)
          else Next (v\<lparr>v_raw := v_raw v @ l\<rparr>)
      | PARSED \<Rightarrow>
          if startswith l ''Raw bits:'' then Next (v\<lparr>block := RAW_BITS\<rparr>)
          else if re_match found_re l \<noteq> None then Next (v\<lparr>block := POINTS\<rparr>)
          else Next (v\<lparr>v_parsed := v_parsed v @ l\<rparr>)
      | RAW_BITS \<Rightarrow>
          if re_match found_re l \<noteq> None then Next (v\<lparr>block := POINTS\<rparr>)
          else Next (v\<lparr>v_raw_bits := v_raw_bits v @ l\<rparr>)
      | POINTS \<Rightarrow> point_line v l)"

text \<open>The three statements after the loop, and the final \<open>return\<close>.\<close>

definition zxing_finish :: "zxing_vars \<Rightarrow> error + BarCode" where
  "zxing_finish v =
     (case decode (butlast (v_parsed v)) of
        Inl e \<Rightarrow> Inl e
      | Inr p \<Rightarrow>
          (case decode (butlast (v_raw v)) of
             Inl e \<Rightarrow> Inl e
           | Inr r \<Rightarrow>
               (case decode (butlast (v_raw_bits v)) of
                  Inl e \<Rightarrow> Inl e
                | Inr h \<Rightarrow>
                    (case fromhex h of
                       Inl e \<Rightarrow> Inl e
                     | Inr rb \<Rightarrow>
                         Inr (BarCode_init (v_uri v) (v_format v) (v_type v) (Some r) (Some p)
                                (Some rb) (Some (v_points v)))))))"

fun zxing_loop :: "zxing_vars \<Rightarrow> bytes list \<Rightarrow> error + BarCode" where
  "zxing_loop v [] = zxing_finish v"
| "zxing_loop v (l # ls) =
     (case zxing_line v l of
        Raise e \<Rightarrow> Inl e
      | Return c \<Rightarrow> Inr c
      | Next v' \<Rightarrow> zxing_loop v' ls)"

definition parse_zxing :: "bytes \<Rightarrow> error + BarCode" where
  "parse_zxing zxing_output = zxing_loop zxing_start (bytes_splitlines True zxing_output)"

section \<open>\<open>file_uri_to_path\<close> and the \<open>path\<close> property\<close>

subsection \<open>\<open>urllib.parse.urlparse\<close>\<close>

record ParseResult =
  url_scheme :: str
  url_netloc :: str
  url_path :: str
  url_params :: str
  url_query :: str
  url_fragment :: str

definition ascii_alpha :: "nat \<Rightarrow> bool" where
  "ascii_alpha n \<longleftrightarrow> (65 \<le> n \<and> n \<le> 90) \<or> (97 \<le> n \<and> n \<le> 122)"

definition scheme_char :: "nat \<Rightarrow> bool" where
  "scheme_char n \<longleftrightarrow> ascii_alpha n \<or> (48 \<le> n \<and> n \<le> 57) \<or> n = 43 \<or> n = 45 \<or> n = 46"

definition ascii_lower :: "nat \<Rightarrow> nat" where
  "ascii_lower n = (if 65 \<le> n \<and> n \<le> 90 then n + 32 else n)"

text \<open>\<open>s.split(c, 1)\<close> as a pair, for a character that occurs in \<open>s\<close>.\<close>

definition split_first :: "nat \<Rightarrow> str \<Rightarrow> str \<times> str" where
  "split_first c s = (takeWhile (\<lambda>x. x \<noteq> c) s, drop 1 (dropWhile (\<lambda>x. x \<noteq> c) s))"

definition uses_params :: "str list" where
  "uses_params =
     map ascii [[], ''ftp'', ''hdl'', ''prospero'', ''http'', ''imap'', ''https'', ''shttp'',
                ''rtsp'', ''rtspu'', ''sip'', ''sips'', ''mms'', ''sftp'', ''tel'']"

text \<open>\<open>_splitparams\<close>: the parameters start at the first \<open>;\<close> of the last path segment.\<close>

definition splitparams :: "str \<Rightarrow> str \<times> str" where
  "splitparams url =
     (let seg = rev (takeWhile (\<lambda>x. x \<noteq> 47) (rev url));
          dir = take (length url - length seg) url
      in if 59 \<in> set seg then (dir @ fst (split_first 59 seg), snd (split_first 59 seg))
         else (url, []))"

text \<open>
  \<open>urlparse\<close> strips leading C0 control characters and spaces, removes tab, carriage return
  and newline, and splits off in turn the scheme, the network location behind \<open>//\<close>, the
  fragment behind \<open>#\<close>, the query behind \<open>?\<close> and, for the schemes of \<open>uses_params\<close>, the
  parameters. It raises \<open>ValueError\<close> for a network location that fails its checks of
  bracketed hosts and of NFKC normalisation; these checks accept every empty network
  location and are the parameter \<open>netloc_ok\<close>.
\<close>

definition urlparse :: "(str \<Rightarrow> bool) \<Rightarrow> str \<Rightarrow> error + ParseResult" where
  "urlparse netloc_ok s =
     (let url0 = filter (\<lambda>c. c \<notin> {9, 10, 13}) (dropWhile (\<lambda>c. c \<le> 32) s);
          cand = takeWhile (\<lambda>c. c \<noteq> 58) url0;
          has_scheme = (58 \<in> set url0 \<and> cand \<noteq> [] \<and> ascii_alpha (hd cand)
                        \<and> (\<forall>c \<in> set cand. scheme_char c));
          scheme = (if has_scheme then map ascii_lower cand else []);
          url1 = (if has_scheme then drop (length cand + 1) url0 else url0);
          has_netloc = (take 2 url1 = [47, 47]);
          netloc = (if has_netloc then takeWhile (\<lambda>c. c \<notin> {47, 63, 35}) (drop 2 url1) else []);
          url2 = (if has_netloc then dropWhile (\<lambda>c. c \<notin> {47, 63, 35}) (drop 2 url1) else url1);
          fragment = (if 35 \<in> set url2 then snd (split_first 35 url2) else []);
          url3 = (if 35 \<in> set url2 then fst (split_first 35 url2) else url2);
          query = (if 63 \<in> set url3 then snd (split_first 63 url3) else []);
          url4 = (if 63 \<in> set url3 then fst (split_first 63 url3) else url3);
          has_params = (scheme \<in> set uses_params \<and> 59 \<in> set url4)
      in if netloc \<noteq> [] \<and> \<not> netloc_ok netloc then Inl ValueError
         else Inr \<lparr>url_scheme = scheme, url_netloc = netloc,
                   url_path = (if has_params then fst (splitparams url4) else url4),
                   url_params = (if has_params then snd (splitparams url4) else []),
                   url_query = query, url_fragment = fragment\<rparr>)"

subsection \<open>\<open>urllib.parse.unquote_plus\<close>\<close>

text \<open>\<open>unquote_to_bytes\<close>: \<open>%\<close> and two hexadecimal digits are one byte; any other \<open>%\<close> stays.\<close>

fun unquote_to_bytes :: "nat list \<Rightarrow> nat list" where
  "unquote_to_bytes (c # h # l # s) =
     (if c = 37 then
        (case (hex_value h, hex_value l) of
           (Some x, Some y) \<Rightarrow> (x * 16 + y) # unquote_to_bytes s
         | _ \<Rightarrow> c # unquote_to_bytes (h # l # s))
      else c # unquote_to_bytes (h # l # s))"
| "unquote_to_bytes s = s"

definition unquote_ascii :: "str \<Rightarrow> str" where
  "unquote_ascii run =
     (case utf8_decode_nat True (unquote_to_bytes run) of Inr t \<Rightarrow> t | Inl _ \<Rightarrow> [])"

text \<open>
  \<open>unquote\<close> decodes each maximal run of ASCII characters by itself, as UTF-8 with
  \<open>errors='replace'\<close>, and keeps the other characters. \<open>run\<close> is the run read so far.
\<close>

fun unquote_from :: "str \<Rightarrow> str \<Rightarrow> str" where
  "unquote_from run [] = unquote_ascii run"
| "unquote_from run (c # cs) =
     (if c < 128 then unquote_from (run @ [c]) cs
      else unquote_ascii run @ c # unquote_from [] cs)"

definition unquote :: "str \<Rightarrow> str" where
  "unquote s = (if 37 \<in> set s then unquote_from [] s else s)"

definition unquote_plus :: "str \<Rightarrow> str" where
  "unquote_plus s = unquote (replace_char 43 32 s)"

subsection \<open>The functions of the source\<close>

text \<open>
  \<open>file_uri_to_path\<close> is also reached with \<open>None\<close>, the \<open>uri\<close> of a \<open>BarCode\<close> without one:
  \<open>urlparse(None)\<close> is the all-empty bytes result, whose four components differ from the
  four strings they are compared with, so that \<open>ValueError\<close> is raised.
\<close>

definition file_uri_to_path :: "(str \<Rightarrow> bool) \<Rightarrow> str option \<Rightarrow> error + str" where
  "file_uri_to_path netloc_ok s =
     (case s of
        None \<Rightarrow> Inl ValueError
      | Some t \<Rightarrow>
          (case urlparse netloc_ok t of
             Inl e \<Rightarrow> Inl e
           | Inr u \<Rightarrow>
               if (url_scheme u, url_netloc u, url_query u, url_fragment u)
                    \<noteq> (ascii ''file'', [], [], [])
               then Inl ValueError
               else Inr (unquote_plus (url_path u))))"

text \<open>
  The property \<open>path\<close>: \<open>except ValueError: pass\<close> turns a \<open>ValueError\<close> into the result
  \<open>None\<close> and lets any other exception through.
\<close>

definition path :: "(str \<Rightarrow> bool) \<Rightarrow> BarCode \<Rightarrow> error + str option" where
  "path netloc_ok self =
     (case file_uri_to_path netloc_ok (uri self) of
        Inr p \<Rightarrow> Inr (Some p)
      | Inl e \<Rightarrow> if e = ValueError then Inr None else Inl e)"

section \<open>\<open>ZxingBarCodeReader._decode\<close>\<close>

text \<open>
  Running the Java process is outside the model. \<open>ZxingBarCodeReader_decode\<close> is \<open>_decode\<close>
  from the point where the process has ended: it is given the reader, the list
  \<open>file_uris\<close> that \<open>_decode\<close> computed from the file names, and the output \<open>stdout\<close> and the
  return code of the process.
\<close>

record ZxingBarCodeReader =
  java :: str
  classpath :: str

text \<open>
  The \<open>if\<close>/\<open>elif\<close> chain over the known beginnings of a failed run. \<open>caused_by\<close> is the
  search for the line that names the file and the reason; the pair \<open>fn, err\<close> is unpacked
  from the decoded pieces of that line, which fails when there is one piece only.
\<close>

definition caused_by :: "bytes \<Rightarrow> error + str \<times> str" where
  "caused_by stdout =
     (case filter (\<lambda>l. startswith l ''Caused by: java.io.FileNotFoundException: '')
             (bytes_splitlines False stdout) of
        [] \<Rightarrow> Inr ([], [])
      | l # _ \<Rightarrow>
          (case rsplit1 (drop 42 l) '' ('' of
             [a, b] \<Rightarrow>
               (case decode a of
                  Inl e \<Rightarrow> Inl e
                | Inr fn \<Rightarrow> (case decode b of Inl e \<Rightarrow> Inl e | Inr err \<Rightarrow> Inr (fn, err)))
           | a # _ \<Rightarrow> (case decode a of Inl e \<Rightarrow> Inl e | Inr fn \<Rightarrow> Inl ValueError)
           | [] \<Rightarrow> Inl ValueError))"

definition failed_run ::
  "(str \<Rightarrow> bool) \<Rightarrow> ZxingBarCodeReader \<Rightarrow> bytes \<Rightarrow> int \<Rightarrow> error option" where
  "failed_run netloc_ok self stdout returncode =
     (if startswith stdout
           ''Error: Could not find or load main class com.google.zxing.client.j2se.CommandLineRunner''
         \<or> startswith stdout ''Exception in thread \"main\" java.lang.NoClassDefFoundError:''
      then Some (BarCodeReaderException
                   (ascii ''Java JARs not found in classpath ('' @ classpath self @ ascii '')'')
                   (classpath self) NoCause)
      else if startswith stdout
           ''Exception in thread \"main\" javax.imageio.IIOException: Can't get input stream from URL!''
         \<or> startswith stdout
           (''Exception in thread \"main\" java.util.concurrent.ExecutionException: ''
            @ ''javax.imageio.IIOException: Can't get input stream from URL!'')
      then
        (case caused_by stdout of
           Inl e \<Rightarrow> Some e
         | Inr (fn, err) \<Rightarrow>
             Some (BarCodeReaderException (ascii ''Java library could not read image'') fn
                     (if err = ascii ''No such file or directory)'' then FileNotFoundError fn
                      else if err = ascii ''Permission denied)'' then PermissionError fn
                      else OSError (butlast err))))
      else if startswith stdout ''Exception in thread \"main\" java.io.IOException: Could not load ''
      then
        (case bytes_splitlines False stdout of
           [] \<Rightarrow> Some IndexError
         | l # _ \<Rightarrow>
             (case decode (drop 63 l) of
                Inl e \<Rightarrow> Some e
              | Inr u \<Rightarrow>
                  (case file_uri_to_path netloc_ok (Some u) of
                     Inl e \<Rightarrow> Some e
                   | Inr fn \<Rightarrow>
                       Some (BarCodeReaderException
                               (ascii ''Java library could not read image (is it in a supported format?)'')
                               fn NoCause))))
      else if startswith stdout ''Exception ''
      then Some (BarCodeReaderException (ascii ''Unknown Java exception'') (java self)
                   (CalledProcessError 0 stdout))
      else if startswith stdout
           ''The operation couldn't be completed. Unable to locate a Java Runtime.''
      then Some (BarCodeReaderException
                   (ascii ''Unable to locate Java runtime (check JAVA_HOME variable and other configuration)'')
                   (java self) (CalledProcessError returncode stdout))
      else if returncode \<noteq> 0
      then Some (BarCodeReaderException (ascii ''Unexpected Java subprocess return code'')
                   (java self) (CalledProcessError returncode stdout))
      else None)"

text \<open>
  The loop that gathers the lines of \<open>stdout\<close> into \<open>file_results\<close>, one entry for each line
  that starts a block. A line that continues a block when there is no block yet makes
  \<open>file_results[-1]\<close> raise \<open>IndexError\<close>.
\<close>

definition starts_block :: "bytes \<Rightarrow> bool" where
  "starts_block line \<longleftrightarrow> startswith line ''file://'' \<or> startswith line ''Exception''"

fun gather :: "bytes list \<Rightarrow> bytes list \<Rightarrow> error + bytes list" where
  "gather file_results [] = Inr file_results"
| "gather file_results (line # lines) =
     (if starts_block line then gather (file_results @ [line]) lines
      else if file_results = [] then Inl IndexError
      else gather (butlast file_results @ [last file_results @ line]) lines)"

text \<open>\<open>codes = [BarCode.parse_zxing(result) for result in file_results]\<close>\<close>

fun parse_each :: "bytes list \<Rightarrow> error + BarCode list" where
  "parse_each [] = Inr []"
| "parse_each (result # results) =
     (case parse_zxing result of
        Inl e \<Rightarrow> Inl e
      | Inr c \<Rightarrow> (case parse_each results of Inl e \<Rightarrow> Inl e | Inr cs \<Rightarrow> Inr (c # cs)))"

text \<open>
  \<open>d = {c.uri: c for c in codes}\<close>: a later code replaces an earlier one with the same
  \<open>uri\<close>. A key of \<open>d\<close> is a string or \<open>None\<close>.
\<close>

definition dict_by_uri :: "BarCode list \<Rightarrow> (str option \<rightharpoonup> BarCode)" where
  "dict_by_uri codes = fold (\<lambda>c d. d(uri c \<mapsto> c)) codes Map.empty"

text \<open>\<open>[d[f] for f in file_uris]\<close>: a missing key raises \<open>KeyError\<close>.\<close>

fun lookup_each :: "(str option \<rightharpoonup> BarCode) \<Rightarrow> str list \<Rightarrow> error + BarCode list" where
  "lookup_each d [] = Inr []"
| "lookup_each d (f # fs) =
     (case d (Some f) of
        None \<Rightarrow> Inl (KeyError f)
      | Some c \<Rightarrow> (case lookup_each d fs of Inl e \<Rightarrow> Inl e | Inr cs \<Rightarrow> Inr (c # cs)))"

definition ZxingBarCodeReader_decode ::
  "(str \<Rightarrow> bool) \<Rightarrow> ZxingBarCodeReader \<Rightarrow> str list \<Rightarrow> bytes \<Rightarrow> int \<Rightarrow> error + BarCode list" where
  "ZxingBarCodeReader_decode netloc_ok self file_uris stdout returncode =
     (case failed_run netloc_ok self stdout returncode of
        Some e \<Rightarrow> Inl e
      | None \<Rightarrow>
          (case gather [] (bytes_splitlines True stdout) of
             Inl e \<Rightarrow> Inl e
           | Inr file_results \<Rightarrow>
               (case parse_each file_results of
                  Inl e \<Rightarrow> Inl e
                | Inr codes \<Rightarrow> lookup_each (dict_by_uri codes) file_uris)))"

section \<open>\<open>BarCode.parse_rxing\<close>\<close>

subsection \<open>\<open>str\<close> methods\<close>

text \<open>
  The tables of the Unicode character database that the \<open>str\<close> operations of
  \<open>parse_rxing\<close> consult are parameters. They are asked about non-ASCII characters only;
  what the operations do with ASCII characters is written out.
\<close>

record unicode_data =
  upper_of :: "nat \<Rightarrow> str"
  is_decimal :: "nat \<Rightarrow> bool"
  named :: "nat list \<Rightarrow> nat option"

text \<open>The characters of \<open>str.isspace\<close>, which \<open>str.strip\<close> and \<open>\s\<close> in a \<open>str\<close> pattern use.\<close>

definition str_isspace :: "nat \<Rightarrow> bool" where
  "str_isspace n \<longleftrightarrow>
     (9 \<le> n \<and> n \<le> 13) \<or> (28 \<le> n \<and> n \<le> 32) \<or> n = 0x85 \<or> n = 0xA0 \<or> n = 0x1680
     \<or> (0x2000 \<le> n \<and> n \<le> 0x200A) \<or> n = 0x2028 \<or> n = 0x2029 \<or> n = 0x202F
     \<or> n = 0x205F \<or> n = 0x3000"

definition str_strip :: "str \<Rightarrow> str" where
  "str_strip = strip_with str_isspace"

definition str_isdigit :: "unicode_data \<Rightarrow> nat \<Rightarrow> bool" where
  "str_isdigit ucd n \<longleftrightarrow> (if n < 128 then 48 \<le> n \<and> n \<le> 57 else is_decimal ucd n)"

definition str_upper :: "unicode_data \<Rightarrow> str \<Rightarrow> str" where
  "str_upper ucd s =
     concat (map (\<lambda>n. if n < 128 then [if 97 \<le> n \<and> n \<le> 122 then n - 32 else n]
                       else upper_of ucd n) s)"

text \<open>
  \<open>str.splitlines()\<close> drops the line ends and breaks at \<open>\r\n\<close>, \<open>\n\<close>, \<open>\r\<close>, \<open>\v\<close>, \<open>\f\<close>, the
  three separators \<open>\x1c\<close> to \<open>\x1e\<close>, \<open>\x85\<close>, U+2028 and U+2029.
\<close>

definition line_break :: "nat \<Rightarrow> bool" where
  "line_break n \<longleftrightarrow> (10 \<le> n \<and> n \<le> 13) \<or> (28 \<le> n \<and> n \<le> 30) \<or> n = 0x85 \<or> n = 0x2028 \<or> n = 0x2029"

fun str_splitlines_from :: "str \<Rightarrow> str \<Rightarrow> str list" where
  "str_splitlines_from cur [] = (if cur = [] then [] else [cur])"
| "str_splitlines_from cur (c # cs) =
     (if c = 13 then
        (case cs of
           [] \<Rightarrow> [cur]
         | d # ds \<Rightarrow>
             if d = 10 then cur # str_splitlines_from [] ds
             else cur # str_splitlines_from [] (d # ds))
      else if line_break c then cur # str_splitlines_from [] cs
      else str_splitlines_from (cur @ [c]) cs)"

definition str_splitlines :: "str \<Rightarrow> str list" where
  "str_splitlines s = str_splitlines_from [] s"

definition rjust :: "nat \<Rightarrow> 'a \<Rightarrow> 'a list \<Rightarrow> 'a list" where
  "rjust width fill s = replicate (width - length s) fill @ s"

text \<open>\<open>str.encode()\<close>: UTF-8; a surrogate cannot be encoded.\<close>

definition utf8_encode_char :: "nat \<Rightarrow> nat list option" where
  "utf8_encode_char n =
     (if n < 0x80 then Some [n]
      else if n < 0x800 then Some [0xC0 + n div 64, 0x80 + n mod 64]
      else if 0xD800 \<le> n \<and> n \<le> 0xDFFF then None
      else if n < 0x10000 then Some [0xE0 + n div 4096, 0x80 + n div 64 mod 64, 0x80 + n mod 64]
      else if n < 0x110000 then
        Some [0xF0 + n div 262144, 0x80 + n div 4096 mod 64, 0x80 + n div 64 mod 64, 0x80 + n mod 64]
      else None)"

fun encode :: "str \<Rightarrow> error + nat list" where
  "encode [] = Inr []"
| "encode (n # s) =
     (case utf8_encode_char n of
        None \<Rightarrow> Inl UnicodeEncodeError
      | Some b \<Rightarrow> (case encode s of Inl e \<Rightarrow> Inl e | Inr bs \<Rightarrow> Inr (b @ bs)))"

subsection \<open>The codec \<open>unicode_escape\<close>\<close>

fun hex_number :: "nat \<Rightarrow> nat list \<Rightarrow> nat option" where
  "hex_number acc [] = Some acc"
| "hex_number acc (c # cs) =
     (case hex_value c of None \<Rightarrow> None | Some h \<Rightarrow> hex_number (acc * 16 + h) cs)"

definition octal :: "nat \<Rightarrow> bool" where
  "octal c \<longleftrightarrow> 48 \<le> c \<and> c \<le> 55"

text \<open>
  \<open>escape e r\<close> is the escape sequence that starts with a backslash and the byte \<open>e\<close>, in
  front of the bytes \<open>r\<close>: the characters it stands for and how many bytes of \<open>r\<close> belong to
  it, or \<open>None\<close> where the codec reports an error. An unknown escape stands for itself.
\<close>

definition escape :: "unicode_data \<Rightarrow> nat \<Rightarrow> nat list \<Rightarrow> (str \<times> nat) option" where
  "escape ucd e r =
     (if e = 10 then Some ([], 0)
      else if e = 92 \<or> e = 39 \<or> e = 34 then Some ([e], 0)
      else if e = 98 then Some ([8], 0)
      else if e = 102 then Some ([12], 0)
      else if e = 116 then Some ([9], 0)
      else if e = 110 then Some ([10], 0)
      else if e = 114 then Some ([13], 0)
      else if e = 118 then Some ([11], 0)
      else if e = 97 then Some ([7], 0)
      else if octal e then
        (let k = (if octal (hd (r @ [0])) then (if octal (hd (drop 1 r @ [0])) then 2 else 1) else 0)
         in Some ([fold (\<lambda>c a. a * 8 + (c - 48)) (take k r) (e - 48)], k))
      else if e = 120 \<or> e = 117 \<or> e = 85 then
        (let k = (if e = 120 then 2 else if e = 117 then 4 else 8)
         in if length r < k then None
            else (case hex_number 0 (take k r) of
                    None \<Rightarrow> None
                  | Some n \<Rightarrow> if n > 0x10FFFF then None else Some ([n], k)))
      else if e = 78 then
        (case r of
           [] \<Rightarrow> None
         | b # t \<Rightarrow>
             let name = takeWhile (\<lambda>c. c \<noteq> 125) t
             in if b \<noteq> 123 \<or> 125 \<notin> set t \<or> name = [] then None
                else (case named ucd name of
                        None \<Rightarrow> None
                      | Some n \<Rightarrow> Some ([n], length name + 2)))
      else Some ([92, e], 0))"

fun unicode_escape :: "unicode_data \<Rightarrow> nat list \<Rightarrow> error + str" where
  "unicode_escape ucd [] = Inr []"
| "unicode_escape ucd [c] = (if c = 92 then Inl UnicodeDecodeError else Inr [c])"
| "unicode_escape ucd (c # e # r) =
     (if c \<noteq> 92 then
        (case unicode_escape ucd (e # r) of Inl x \<Rightarrow> Inl x | Inr s \<Rightarrow> Inr (c # s))
      else
        (case escape ucd e r of
           None \<Rightarrow> Inl UnicodeDecodeError
         | Some (out, k) \<Rightarrow>
             (case unicode_escape ucd (drop k r) of Inl x \<Rightarrow> Inl x | Inr s \<Rightarrow> Inr (out @ s))))"

subsection \<open>The patterns and the function\<close>

text \<open>\<open>RUST_UNICODE_ESCAPE\<close>, and its replacement \<open>r'\u' + m.group(1).rjust(4, '0')\<close>.\<close>

definition RUST_UNICODE_ESCAPE :: "nat re_item list" where
  "RUST_UNICODE_ESCAPE =
     [Lit 92, Lit 117, Lit 123,
      group1 (\<lambda>c. (97 \<le> c \<and> c \<le> 102) \<or> (48 \<le> c \<and> c \<le> 57)), Lit 125]"

definition fixed_width :: "str list \<Rightarrow> str" where
  "fixed_width groups = [92, 117] @ rjust 4 48 (hd groups)"

definition str_coord :: "unicode_data \<Rightarrow> nat \<Rightarrow> bool" where
  "str_coord ucd c \<longleftrightarrow> c = 45 \<or> str_isdigit ucd c \<or> c = 46"

definition POINTS_re :: "unicode_data \<Rightarrow> nat re_item list" where
  "POINTS_re ucd =
     lits (ascii ''PointT'') @ [many0 str_isspace] @ lits (ascii ''{'') @ [many0 str_isspace] @
     lits (ascii ''x:'') @ [many0 str_isspace, group1 (str_coord ucd)] @ lits (ascii '','') @
     [many0 str_isspace] @ lits (ascii ''y:'') @ [many0 str_isspace, group1 (str_coord ucd),
     many0 str_isspace] @ lits (ascii ''}'')"

definition str_float :: "unicode_data \<Rightarrow> str \<Rightarrow> error + pyfloat" where
  "str_float ucd s =
     (if float_syntax (str_isdigit ucd) 45 46 s then Inr (Float s) else Inl ValueError)"

fun floats :: "unicode_data \<Rightarrow> str list list \<Rightarrow> error + point list" where
  "floats ucd [] = Inr []"
| "floats ucd (m # ms) =
     (case str_float ucd (m ! 0) of
        Inl e \<Rightarrow> Inl e
      | Inr x \<Rightarrow>
          (case str_float ucd (m ! 1) of
             Inl e \<Rightarrow> Inl e
           | Inr y \<Rightarrow> (case floats ucd ms of Inl e \<Rightarrow> Inl e | Inr ps \<Rightarrow> Inr ((x, y) # ps))))"

definition RXING_FORMAT_TO_ZXING :: "str \<rightharpoonup> str" where
  "RXING_FORMAT_TO_ZXING = [ascii ''QRCODE'' \<mapsto> ascii ''QR_CODE'']"

text \<open>The three branches of the loop body, each the new value of the variable it assigns.\<close>

definition rxing_format :: "unicode_data \<Rightarrow> str \<Rightarrow> str" where
  "rxing_format ucd l =
     (let f = str_upper ucd (replace_char 32 95 (removeprefix l (ascii ''[Barcode Format] '')))
      in case RXING_FORMAT_TO_ZXING f of None \<Rightarrow> f | Some z \<Rightarrow> z)"

definition rxing_data :: "unicode_data \<Rightarrow> str \<Rightarrow> error + str" where
  "rxing_data ucd l =
     (case encode (re_sub RUST_UNICODE_ESCAPE fixed_width (removeprefix l (ascii ''[Data] ''))) of
        Inl e \<Rightarrow> Inl e
      | Inr b \<Rightarrow> unicode_escape ucd b)"

definition rxing_points :: "unicode_data \<Rightarrow> str \<Rightarrow> error + point list" where
  "rxing_points ucd l =
     floats ucd (re_findall (POINTS_re ucd) (removeprefix l (ascii ''[Points] '')))"

text \<open>The loop over the lines, with the variables \<open>format\<close>, \<open>raw\<close> and \<open>points\<close>.\<close>

fun rxing_loop ::
  "unicode_data \<Rightarrow> str option \<times> str \<times> point list \<Rightarrow> str list
     \<Rightarrow> error + str option \<times> str \<times> point list" where
  "rxing_loop ucd v [] = Inr v"
| "rxing_loop ucd (f, r, p) (l # ls) =
     (if startswith l (ascii ''[Barcode Format] '') then
        rxing_loop ucd (Some (rxing_format ucd l), r, p) ls
      else if startswith l (ascii ''[Data] '') then
        (case rxing_data ucd l of
           Inl e \<Rightarrow> Inl e
         | Inr r' \<Rightarrow> rxing_loop ucd (f, r', p) ls)
      else if startswith l (ascii ''[Points] '') then
        (case rxing_points ucd l of
           Inl e \<Rightarrow> Inl e
         | Inr p' \<Rightarrow> rxing_loop ucd (f, r, p') ls)
      else rxing_loop ucd (f, r, p) ls)"

text \<open>
  Both \<open>return\<close> statements of \<open>parse_rxing\<close> build the \<open>uri\<close> as
  \<open>pathlib.Path(path).absolute().as_uri()\<close>. The function has the parameters \<open>cls\<close>,
  \<open>rxing_output\<close> and \<open>fn\<close> and assigns \<open>errp\<close>, \<open>err\<close>, \<open>format\<close>, \<open>raw\<close>, \<open>points\<close> and \<open>l\<close>;
  the module binds no \<open>path\<close> and neither do the builtins. The name \<open>path\<close> is evaluated
  before anything else of the \<open>BarCode\<close> is built, and raises \<open>NameError\<close>. (The keyword
  argument \<open>parsed=parsed\<close> of the second \<open>return\<close> names another unbound variable, which
  is not reached.)
\<close>

definition parse_rxing :: "unicode_data \<Rightarrow> str \<Rightarrow> str \<Rightarrow> error + BarCode" where
  "parse_rxing ucd rxing_output fn =
     (let errp = ascii ''Error while attempting to locate barcode in '' @ [39] @ fn @ [39, 58]
      in if startswith rxing_output errp then
           (let err = str_strip (removeprefix rxing_output errp)
            in if err = ascii ''NotFoundException'' then Inl (NameError ''path'')
               else Inl (BarCodeReaderException err fn NoCause))
         else
           (case rxing_loop ucd (None, [], []) (str_splitlines rxing_output) of
              Inl e \<Rightarrow> Inl e
            | Inr (f, r, p) \<Rightarrow> Inl (NameError ''path'')))"

section \<open>Notions for stating the properties\<close>

text \<open>
  A line that \<open>parse_zxing\<close> passes over while it is in the block \<open>UNKNOWN\<close>: it does not
  end in the no-barcode message, is not a header line and does not open the raw result.
\<close>

definition skipped :: "bytes \<Rightarrow> bool" where
  "skipped l \<longleftrightarrow>
     \<not> endswith (bytes_strip l) '': No barcode found'' \<and> re_match header_re l = None
     \<and> \<not> startswith l ''Raw result:''"

text \<open>
  The header line assigns \<open>uri\<close>, \<open>format\<close> and \<open>type\<close> together: the three variables are
  all \<open>None\<close> or all set.
\<close>

definition header_seen :: "zxing_vars \<Rightarrow> bool" where
  "header_seen v \<longleftrightarrow> v_uri v \<noteq> None \<and> v_format v \<noteq> None \<and> v_type v \<noteq> None"

definition header_unseen :: "zxing_vars \<Rightarrow> bool" where
  "header_unseen v \<longleftrightarrow> v_uri v = None \<and> v_format v = None \<and> v_type v = None"

text \<open>
  The two shapes of a \<open>BarCode\<close> that \<open>parse_zxing\<close> returns: the one of its early \<open>return\<close>,
  with the \<open>uri\<close> alone, and the one of its final \<open>return\<close>, where \<open>raw\<close>, \<open>parsed\<close>,
  \<open>raw_bits\<close> and \<open>points\<close> are values (possibly empty) and \<open>uri\<close>, \<open>format\<close> and \<open>type\<close>
  are there together or not at all.
\<close>

definition not_found_result :: "BarCode \<Rightarrow> bool" where
  "not_found_result c \<longleftrightarrow>
     uri c \<noteq> None \<and> format c = None \<and> type c = None \<and> raw c = None \<and> parsed c = None
     \<and> raw_bits c = None \<and> points c = None"

definition parsed_result :: "BarCode \<Rightarrow> bool" where
  "parsed_result c \<longleftrightarrow>
     raw c \<noteq> None \<and> parsed c \<noteq> None \<and> raw_bits c \<noteq> None \<and> points c \<noteq> None
     \<and> (uri c = None \<and> format c = None \<and> type c = None
        \<or> uri c \<noteq> None \<and> format c \<noteq> None \<and> type c \<noteq> None)"

text \<open>
  The output that the repository's test \<open>test_zxing_parsing\<close> builds from its two
  parameters. The first word of the raw result is written with the two bytes of U+00C9 in
  UTF-8.
\<close>

definition test_stdout :: "bool \<Rightarrow> bool \<Rightarrow> bytes" where
  "test_stdout with_raw_bits with_netloc =
     ''\<newline>file://'' @ (if with_netloc then ''NETWORK_SHARE'' else [])
     @ ''/tmp/default%20file.png (format: FAKE_DATA, type: TEXT):\<newline>Raw result:\<newline>''
     @ [CHR 0xC3, CHR 0x89] @ ''lan|'' @ [CHR 0x09] @ ''the barcode is taking off\<newline>''
     @ ''Parsed result:\<newline>'' @ [CHR 0xC3, CHR 0x89] @ ''lan\<newline>'' @ [CHR 0x09]
     @ ''the barcode is taking off''
     @ (if with_raw_bits then ''\<newline>Raw bits:\<newline>  f00f00cafe'' else [])
     @ ''\<newline>Found 4 result points:\<newline>  Point 0: (24.0,18.0)\<newline>''
     @ ''  Point 1: (21.0,196.0)\<newline>  Point 2: (201.0,198.0)\<newline>''
     @ ''  Point 3: (205.23952,21.0)\<newline>''"

text \<open>What the test expects of the parsed output.\<close>

definition test_expected :: "bool \<Rightarrow> bool \<Rightarrow> BarCode" where
  "test_expected with_raw_bits with_netloc =
     \<lparr>uri = Some (ascii ''file://'' @ (if with_netloc then ascii ''NETWORK_SHARE'' else [])
                   @ ascii ''/tmp/default%20file.png''),
      format = Some (ascii ''FAKE_DATA''),
      type = Some (ascii ''TEXT''),
      raw = Some ([0xC9] @ ascii ''lan|'' @ [9] @ ascii ''the barcode is taking off''),
      parsed = Some ([0xC9] @ ascii ''lan\<newline>'' @ [9] @ ascii ''the barcode is taking off''),
      raw_bits = Some (if with_raw_bits then [CHR 0xF0, CHR 0x0F, CHR 0x00, CHR 0xCA, CHR 0xFE]
                       else []),
      points = Some [(Float (ascii ''24.0''), Float (ascii ''18.0'')),
                     (Float (ascii ''21.0''), Float (ascii ''196.0'')),
                     (Float (ascii ''201.0''), Float (ascii ''198.0'')),
                     (Float (ascii ''205.23952''), Float (ascii ''21.0''))]\<rparr>"

text \<open>
  The variables of \<open>parse_zxing\<close> after the loop has gone through some lines, when none of
  them made it return or raise.
\<close>

fun zxing_steps :: "zxing_vars \<Rightarrow> bytes list \<Rightarrow> zxing_vars option" where
  "zxing_steps v [] = Some v"
| "zxing_steps v (l # ls) =
     (case zxing_line v l of
        Next v' \<Rightarrow> zxing_steps v' ls
      | _ \<Rightarrow> None)"

text \<open>
  \<open>hex_text t bs\<close>: the text \<open>t\<close> is the bytes \<open>bs\<close> written as pairs of hexadecimal digits,
  with any whitespace before, between and behind the pairs.
\<close>

inductive hex_text :: "bytes \<Rightarrow> bytes \<Rightarrow> bool" where
  hex_end: "\<forall>c \<in> set w. bytes_isspace c \<Longrightarrow> hex_text w []"
| hex_pair: "\<forall>c \<in> set w. bytes_isspace c \<Longrightarrow> hex_value (of_char h) = Some x
     \<Longrightarrow> hex_value (of_char l) = Some y \<Longrightarrow> hex_text t bs
     \<Longrightarrow> hex_text (w @ h # l # t) (char_of (x * 16 + y) # bs)"

section \<open>Properties of \<open>parse_rxing\<close>\<close>

lemma startswith_append [simp]: "startswith (p @ s) p"
  by (simp add: startswith_def)

lemma removeprefix_append [simp]: "removeprefix (p @ s) p = s"
  by (simp add: removeprefix_def)

lemma replicate_numeral_Cons: "replicate (numeral k) x = x # replicate (pred_numeral k) x"
  by (simp add: numeral_eq_Suc)

text \<open>The definitions that the simplifier unfolds to run \<open>parse_rxing\<close> on a given output.\<close>

lemmas rxing_defs = parse_rxing_def rxing_data_def rxing_points_def rxing_format_def
  removeprefix_def startswith_def ascii_def re_sub_def re_findall_def RUST_UNICODE_ESCAPE_def
  POINTS_re_def lits_def many0_def many1_def group1_def greedy_def fixed_width_def rjust_def
  utf8_encode_char_def escape_def octal_def hex_value_def str_splitlines_def line_break_def
  str_strip_def strip_with_def str_isspace_def str_isdigit_def str_upper_def str_coord_def
  str_float_def float_syntax_def replace_char_def RXING_FORMAT_TO_ZXING_def Let_def
  replicate_numeral_Cons

text \<open>
  Output that begins with the error prefix for \<open>fn\<close>: any reason but \<open>NotFoundException\<close>
  is raised as a \<open>BarCodeReaderException\<close> with the stripped reason and \<open>fn\<close>, and
  \<open>NotFoundException\<close> ends in the \<open>NameError\<close>.
\<close>

lemma parse_rxing_error_prefix:
  "parse_rxing ucd
     (ascii ''Error while attempting to locate barcode in '' @ [39] @ fn @ [39, 58] @ rest) fn =
     (if str_strip rest = ascii ''NotFoundException'' then Inl (NameError ''path'')
      else Inl (BarCodeReaderException (str_strip rest) fn NoCause))"
proof -
  let ?errp = "ascii ''Error while attempting to locate barcode in '' @ [39] @ fn @ [39, 58]"
  have "ascii ''Error while attempting to locate barcode in '' @ [39] @ fn @ [39, 58] @ rest
          = ?errp @ rest"
    by simp
  then show ?thesis
    unfolding parse_rxing_def Let_def
    by (simp only: startswith_append removeprefix_append if_True)
qed

text \<open>No call of \<open>parse_rxing\<close> returns a \<open>BarCode\<close>.\<close>

lemma parse_rxing_never_returns: "parse_rxing ucd rxing_output fn \<noteq> Inr c"
  by (simp add: parse_rxing_def Let_def split: sum.splits prod.splits)

text \<open>
  Claim C3. For output that starts with the error prefix for \<open>fn\<close>, \<open>parse_rxing\<close> is to return
  a \<open>BarCode\<close> that carries the \<open>uri\<close> only when the reason is \<open>NotFoundException\<close>. On the
  input of the repository's test \<open>test_rxing_parsing_not_found\<close> the function raises
  \<open>NameError\<close> instead, for any Unicode tables.
\<close>

theorem parse_rxing_not_found_raises_NameError:
  "parse_rxing ucd
     (ascii ''Error while attempting to locate barcode in '/tmp/no_barcode.png': NotFoundException'')
     (ascii ''/tmp/no_barcode.png'') = Inl (NameError ''path'')"
  by (simp add: rxing_defs)

text \<open>
  Claim C4. For successful output \<open>parse_rxing\<close> is to return a \<open>BarCode\<close> with \<open>raw\<close> equal to
  \<open>parsed\<close>, no \<open>raw_bits\<close> and the \<open>type\<close> \<open>TEXT\<close>. On the output of the repository's test
  \<open>test_rxing_parsing\<close> the function returns no \<open>BarCode\<close>: it raises \<open>NameError\<close>.
\<close>

theorem parse_rxing_success_raises_NameError:
  "parse_rxing ucd
     (ascii (''\<newline>[Barcode Format] qrcode\<newline>''
        @ ''[Points] [PointT { x: -0.123, y: 456 }, PointT { x: 1.5, y: 1.5 }, ''
        @ ''PointT { x: 2.5, y: -2.5 }, PointT { x: -0, y: 0.0 }]\<newline>[Data] '')
      @ [92] @ ascii ''u{a1}Atenci'' @ [92] @ ascii ''u{f3}n, '' @ [92, 92]
      @ ascii ''u{f00} is not a Unicode escape\<newline>'')
     (ascii ''/tmp/test.png'') = Inl (NameError ''path'')"
  by (simp add: rxing_defs)

text \<open>
  Claim C5. Output whose \<open>[Data]\<close> line is \<open>\u{a1}Atenci\u{f3}n\<close> is to give a \<open>BarCode\<close> whose
  \<open>raw\<close> is the text with the two characters U+00A1 and U+00F3 in place of the escapes.
  The assignment to the variable \<open>raw\<close> computes that text, and the loop ends with it, but
  the call raises \<open>NameError\<close> and returns nothing.
\<close>

theorem parse_rxing_data_raises_NameError:
  "rxing_data ucd (ascii ''[Data] '' @ [92] @ ascii ''u{a1}Atenci'' @ [92] @ ascii ''u{f3}n'')
     = Inr ([0xA1] @ ascii ''Atenci'' @ [0xF3] @ ascii ''n'')
   \<and> rxing_loop ucd (None, [], [])
       (str_splitlines (ascii ''[Barcode Format] qrcode\<newline>[Data] '' @ [92] @ ascii ''u{a1}Atenci''
          @ [92] @ ascii ''u{f3}n\<newline>''))
     = Inr (Some (ascii ''QR_CODE''), [0xA1] @ ascii ''Atenci'' @ [0xF3] @ ascii ''n'', [])
   \<and> parse_rxing ucd
       (ascii ''[Barcode Format] qrcode\<newline>[Data] '' @ [92] @ ascii ''u{a1}Atenci''
          @ [92] @ ascii ''u{f3}n\<newline>'')
       (ascii ''/tmp/test.png'') = Inl (NameError ''path'')"
  by (simp add: rxing_defs)

section \<open>Properties of \<open>parse_zxing\<close>\<close>

subsection \<open>Splitting at the last colon\<close>

lemma rsplit_at_absent: "c \<notin> set s \<Longrightarrow> rsplit_at [c] pre s = None"
  by (induction s arbitrary: pre) (auto simp: startswith_def)

lemma rsplit_at_last:
  "c \<in> set s \<Longrightarrow> \<exists>a b. rsplit_at [c] pre s = Some (pre @ a, b) \<and> s = a @ c # b \<and> c \<notin> set b"
proof (induction s arbitrary: pre)
  case Nil
  then show ?case by simp
next
  case (Cons x s)
  show ?case
  proof (cases "c \<in> set s")
    case True
    from Cons.IH [OF True, of "pre @ [x]"] obtain a b where
      "rsplit_at [c] (pre @ [x]) s = Some ((pre @ [x]) @ a, b)" "s = a @ c # b" "c \<notin> set b"
      by blast
    then have "rsplit_at [c] pre (x # s) = Some (pre @ (x # a), b) \<and> x # s = (x # a) @ c # b
                 \<and> c \<notin> set b"
      by simp
    then show ?thesis by blast
  next
    case False
    with Cons.prems have "x = c" by simp
    with False have "rsplit_at [c] pre (x # s) = Some (pre @ [], s) \<and> x # s = [] @ c # s
                       \<and> c \<notin> set s"
      by (simp add: rsplit_at_absent startswith_def)
    then show ?thesis by blast
  qed
qed

lemma split_at_first_unique:
  "c \<notin> set x \<Longrightarrow> c \<notin> set x' \<Longrightarrow> x @ c # y = x' @ c # y' \<Longrightarrow> x = x' \<and> y = y'"
proof (induction x arbitrary: x')
  case Nil
  then show ?case by (cases x') auto
next
  case (Cons z x)
  then show ?case by (cases x') auto
qed

text \<open>\<open>s.rsplit(c, 1)\<close> cuts \<open>s\<close> at its last \<open>c\<close>.\<close>

lemma rsplit1_final:
  assumes "s = a @ c # b" "c \<notin> set b"
  shows "rsplit1 s [c] = [a, b]"
proof -
  have "c \<in> set s" using assms by simp
  from rsplit_at_last [OF this, of "[]"] obtain a' b' where
    r: "rsplit_at [c] [] s = Some (a', b')" and s: "s = a' @ c # b'" and n: "c \<notin> set b'"
    by auto
  have "a' = a \<and> b' = b"
  proof -
    from s assms(1) have eq: "a' @ c # b' = a @ c # b" by simp
    have e: "rev b' @ c # rev a' = rev b @ c # rev a" using arg_cong [OF eq, of rev] by simp
    have n1: "c \<notin> set (rev b')" and n2: "c \<notin> set (rev b)" using n assms(2) by simp_all
    have "rev b' = rev b \<and> rev a' = rev a"
      by (rule split_at_first_unique [OF n1 n2 e])
    then show ?thesis by simp
  qed
  with r show ?thesis by (simp add: rsplit1_def)
qed

subsection \<open>The line that reports that no barcode was found\<close>

lemma zxing_line_skipped: "block v = UNKNOWN \<Longrightarrow> skipped l \<Longrightarrow> zxing_line v l = Next v"
  by (simp add: zxing_line_def header_line_def skipped_def)

lemma zxing_loop_skipped:
  "block v = UNKNOWN \<Longrightarrow> \<forall>k \<in> set pre. skipped k \<Longrightarrow> zxing_loop v (pre @ ls) = zxing_loop v ls"
  by (induction pre) (simp_all add: zxing_line_skipped)

lemma zxing_line_not_found:
  assumes "block v = UNKNOWN" "endswith (bytes_strip l) '': No barcode found''"
    "l = a @ CHR '':'' # b" "CHR '':'' \<notin> set b"
  shows "zxing_line v l =
    (case decode a of Inl e \<Rightarrow> Raise e
     | Inr u \<Rightarrow> Return \<lparr>uri = Some u, format = None, type = None, raw = None, parsed = None,
                         raw_bits = None, points = None\<rparr>)"
  using assms rsplit1_final [OF assms(3,4)]
  by (simp add: zxing_line_def BarCode_init_def split: sum.splits)

text \<open>
  Claim C7, as amended. Let a line \<open>l\<close> of the output end, apart from whitespace, in
  \<open>: No barcode found\<close>, with only lines before it that the parser passes over, and let
  \<open>a\<close> be the part of \<open>l\<close> before its last colon. If \<open>a\<close> is valid UTF-8, \<open>parse_zxing\<close>
  returns the \<open>BarCode\<close> with the decoded \<open>a\<close> as \<open>uri\<close> and every other attribute \<open>None\<close>,
  which is false as a truth value; if \<open>a\<close> is not valid UTF-8, the \<open>UnicodeDecodeError\<close> of
  \<open>decode\<close> is raised. No other exception arises.
\<close>

theorem parse_zxing_no_barcode_found:
  assumes "bytes_splitlines True zxing_output = pre @ l # rest"
    and "\<forall>k \<in> set pre. skipped k"
    and "endswith (bytes_strip l) '': No barcode found''"
    and "l = a @ CHR '':'' # b" and "CHR '':'' \<notin> set b"
  shows "parse_zxing zxing_output =
           (case decode a of
              Inl e \<Rightarrow> Inl e
            | Inr u \<Rightarrow> Inr \<lparr>uri = Some u, format = None, type = None, raw = None, parsed = None,
                             raw_bits = None, points = None\<rparr>)
         \<and> (\<forall>c. parse_zxing zxing_output = Inr c \<longrightarrow> \<not> BarCode_bool c)"
proof -
  have u: "block zxing_start = UNKNOWN" by (simp add: zxing_start_def)
  have "parse_zxing zxing_output = zxing_loop zxing_start (l # rest)"
    using assms(1,2) u by (simp add: parse_zxing_def zxing_loop_skipped)
  also have "\<dots> = (case decode a of
              Inl e \<Rightarrow> Inl e
            | Inr u \<Rightarrow> Inr \<lparr>uri = Some u, format = None, type = None, raw = None, parsed = None,
                             raw_bits = None, points = None\<rparr>)"
    using zxing_line_not_found [OF u assms(3,4,5)] by (simp split: sum.splits)
  finally show ?thesis by (auto simp: BarCode_bool_def split: sum.splits)
qed

text \<open>The theorem at the output of the repository's test, behind an empty line.\<close>

theorem parse_zxing_no_barcode_found_witness:
  "parse_zxing ''\<newline>file:///tmp/some%5ffile.png: No barcode found\<newline>''
     = Inr \<lparr>uri = Some (ascii ''file:///tmp/some%5ffile.png''), format = None, type = None,
            raw = None, parsed = None, raw_bits = None, points = None\<rparr>
   \<and> \<not> BarCode_bool \<lparr>uri = Some (ascii ''file:///tmp/some%5ffile.png''), format = None,
            type = None, raw = None, parsed = None, raw_bits = None, points = None\<rparr>"
proof -
  let ?l = "''file:///tmp/some%5ffile.png: No barcode found\<newline>''"
  have 1: "bytes_splitlines True (''\<newline>'' @ ?l) = [''\<newline>''] @ ?l # []"
    by code_simp
  have 2: "\<forall>k \<in> set [''\<newline>'']. skipped k"
    by code_simp
  have 3: "endswith (bytes_strip ?l) '': No barcode found''"
    by code_simp
  have 4: "?l = ''file:///tmp/some%5ffile.png'' @ CHR '':'' # '' No barcode found\<newline>''"
    by simp
  have 5: "CHR '':'' \<notin> set '' No barcode found\<newline>''"
    by simp
  have 6: "decode ''file:///tmp/some%5ffile.png'' = Inr (ascii ''file:///tmp/some%5ffile.png'')"
    by code_simp
  from parse_zxing_no_barcode_found [OF 1 2 3 4 5]
  show ?thesis by (simp add: 6 BarCode_bool_def)
qed

text \<open>
  Claim C7 as stated fails: the line below ends in \<open>: No barcode found\<close>, and the byte
  \<open>0xFF\<close> before the colon is not valid UTF-8, so an exception is raised and no \<open>BarCode\<close>
  is returned.
\<close>

theorem parse_zxing_no_barcode_found_undecodable:
  "endswith (bytes_strip (CHR 0xFF # '': No barcode found\<newline>'')) '': No barcode found''
   \<and> parse_zxing (CHR 0xFF # '': No barcode found\<newline>'') = Inl UnicodeDecodeError"
  by code_simp

subsection \<open>The shapes of the returned \<open>BarCode\<close>\<close>

lemma zxing_line_Next_header:
  assumes "zxing_line v l = Next v'" "header_seen v \<or> header_unseen v"
  shows "header_seen v' \<or> header_unseen v'"
  using assms
  by (cases "block v")
     (auto simp: zxing_line_def header_line_def point_line_def header_seen_def header_unseen_def
           split: if_splits sum.splits option.splits list.splits prod.splits)

lemma zxing_line_Return:
  assumes "zxing_line v l = Return c"
  shows "not_found_result c"
  using assms
  by (cases "block v")
     (auto simp: zxing_line_def header_line_def point_line_def not_found_result_def BarCode_init_def
           split: if_splits sum.splits option.splits list.splits prod.splits)

lemma zxing_finish_result:
  assumes "zxing_finish v = Inr c" "header_seen v \<or> header_unseen v"
  shows "parsed_result c"
  using assms
  by (auto simp: zxing_finish_def parsed_result_def BarCode_init_def header_seen_def
        header_unseen_def split: sum.splits)

lemma zxing_loop_result:
  "zxing_loop v ls = Inr c \<Longrightarrow> header_seen v \<or> header_unseen v
     \<Longrightarrow> not_found_result c \<or> parsed_result c"
proof (induction ls arbitrary: v)
  case Nil
  then show ?case using zxing_finish_result by simp
next
  case (Cons l ls)
  show ?case
  proof (cases "zxing_line v l")
    case (Raise e)
    with Cons.prems show ?thesis by simp
  next
    case (Return c')
    with Cons.prems have "c' = c" by simp
    with Return zxing_line_Return show ?thesis by blast
  next
    case (Next v')
    with Cons.prems have "zxing_loop v' ls = Inr c" by simp
    moreover have "header_seen v' \<or> header_unseen v'"
      using zxing_line_Next_header [OF Next Cons.prems(2)] .
    ultimately show ?thesis by (rule Cons.IH)
  qed
qed

text \<open>
  Claim C6, as amended, for \<open>parse_zxing\<close>. Every \<open>BarCode\<close> that \<open>parse_zxing\<close> returns has
  one of two shapes: the \<open>uri\<close> alone with every decode attribute \<open>None\<close>, or \<open>raw\<close>,
  \<open>parsed\<close>, \<open>raw_bits\<close> and \<open>points\<close> all present (possibly empty) with \<open>uri\<close>, \<open>format\<close>
  and \<open>type\<close> present together or absent together.
\<close>

theorem parse_zxing_result_states:
  "parse_zxing zxing_output = Inr c \<Longrightarrow> not_found_result c \<or> parsed_result c"
  unfolding parse_zxing_def
  by (erule zxing_loop_result) (simp add: header_unseen_def zxing_start_def)

theorem parse_zxing_result_states_witness:
  "parse_zxing ''file:///a.png (format: QR_CODE, type: TEXT):\<newline>Raw result:\<newline>ab\<newline>Parsed result:\<newline>ab\<newline>''
     = Inr \<lparr>uri = Some (ascii ''file:///a.png''), format = Some (ascii ''QR_CODE''),
            type = Some (ascii ''TEXT''), raw = Some (ascii ''ab''), parsed = Some (ascii ''ab''),
            raw_bits = Some [], points = Some []\<rparr>
   \<and> parsed_result \<lparr>uri = Some (ascii ''file:///a.png''), format = Some (ascii ''QR_CODE''),
            type = Some (ascii ''TEXT''), raw = Some (ascii ''ab''), parsed = Some (ascii ''ab''),
            raw_bits = Some [], points = Some []\<rparr>"
proof -
  have 1: "parse_zxing ''file:///a.png (format: QR_CODE, type: TEXT):\<newline>Raw result:\<newline>ab\<newline>Parsed result:\<newline>ab\<newline>''
     = Inr \<lparr>uri = Some (ascii ''file:///a.png''), format = Some (ascii ''QR_CODE''),
            type = Some (ascii ''TEXT''), raw = Some (ascii ''ab''), parsed = Some (ascii ''ab''),
            raw_bits = Some [], points = Some []\<rparr>"
    by code_simp
  from parse_zxing_result_states [OF 1] show ?thesis
    using 1 by (simp add: not_found_result_def)
qed

text \<open>
  Claim C6 as stated fails. Output without a header line gives a \<open>BarCode\<close> with \<open>raw\<close> and
  \<open>parsed\<close> but no \<open>format\<close>, and a header line alone gives one with a \<open>format\<close> and an
  empty \<open>raw\<close>: neither is a successful result with \<open>format\<close>, \<open>raw\<close> and \<open>parsed\<close>, nor a
  failure with every decode attribute absent.
\<close>

theorem parse_zxing_mixed_states:
  "parse_zxing ''Raw result:\<newline>ab\<newline>Parsed result:\<newline>abc\<newline>''
     = Inr \<lparr>uri = None, format = None, type = None, raw = Some (ascii ''ab''),
            parsed = Some (ascii ''abc''), raw_bits = Some [], points = Some []\<rparr>
   \<and> parse_zxing ''file:///a.png (format: QR_CODE, type: TEXT):\<newline>''
     = Inr \<lparr>uri = Some (ascii ''file:///a.png''), format = Some (ascii ''QR_CODE''),
            type = Some (ascii ''TEXT''), raw = Some [], parsed = Some [],
            raw_bits = Some [], points = Some []\<rparr>"
  by code_simp

subsection \<open>The test of the repository\<close>

text \<open>
  \<open>parse_zxing\<close> gives what \<open>test_zxing_parsing\<close> expects, for the four values of the test's
  parameters.
\<close>

lemma test_zxing_parsing: "parse_zxing (test_stdout rb nl) = Inr (test_expected rb nl)"
proof -
  have tt: "parse_zxing (test_stdout True True) = Inr (test_expected True True)"
    by code_simp
  have tf: "parse_zxing (test_stdout True False) = Inr (test_expected True False)"
    by code_simp
  have ft: "parse_zxing (test_stdout False True) = Inr (test_expected False True)"
    by code_simp
  have ff: "parse_zxing (test_stdout False False) = Inr (test_expected False False)"
    by code_simp
  show ?thesis
    using tt tf ft ff by (cases rb; cases nl) simp_all
qed

section \<open>Properties of \<open>path\<close>\<close>

lemma urlparse_raises_ValueError: "urlparse netloc_ok u = Inl e \<Longrightarrow> e = ValueError"
  by (simp add: urlparse_def Let_def split: if_splits)

lemma file_uri_to_path_raises_ValueError:
  "file_uri_to_path netloc_ok s = Inl e \<Longrightarrow> e = ValueError"
  by (auto simp: file_uri_to_path_def split: option.splits sum.splits if_splits
           dest: urlparse_raises_ValueError)

lemma path_eq:
  "path netloc_ok c =
     Inr (case uri c of
            None \<Rightarrow> None
          | Some u \<Rightarrow>
              (case urlparse netloc_ok u of
                 Inl e \<Rightarrow> None
               | Inr r \<Rightarrow>
                   if url_scheme r = ascii ''file'' \<and> url_netloc r = [] \<and> url_query r = []
                      \<and> url_fragment r = []
                   then Some (unquote_plus (url_path r)) else None))"
  by (auto simp: path_def file_uri_to_path_def split: option.splits sum.splits
           dest: urlparse_raises_ValueError)

lemma unquote_plus_no_percent: "37 \<notin> set p \<Longrightarrow> unquote_plus p = replace_char 43 32 p"
  by (auto simp: unquote_plus_def unquote_def replace_char_def)

text \<open>The definitions that the simplifier unfolds to run \<open>path\<close> on a given \<open>uri\<close>.\<close>

lemmas url_defs = urlparse_def file_uri_to_path_def path_def unquote_plus_def unquote_def
  unquote_ascii_def replace_char_def split_first_def splitparams_def uses_params_def
  ascii_alpha_def scheme_char_def ascii_lower_def ascii_def hex_value_def utf8_step_def
  utf8_cont_def utf8_second_ok_def Let_def

text \<open>
  Claim C8. The property \<open>path\<close> never raises: it always has a result. The result is \<open>None\<close>
  whenever the parsed \<open>uri\<close> has a network location or a scheme other than \<open>file\<close>, and
  whenever \<open>urlparse\<close> rejects the \<open>uri\<close>; for a \<open>file\<close> URI without network location, query
  and fragment it is the percent-decoded path. Hence the output of the repository's test
  with a network location parses to a \<open>BarCode\<close> whose \<open>uri\<close> is set and whose \<open>path\<close> is
  \<open>None\<close>, and the output without one has the path with \<open>%20\<close> decoded.
\<close>

theorem path_never_raises:
  "(\<exists>r. path netloc_ok c = Inr r)
   \<and> (\<forall>u r. uri c = Some u \<and> urlparse netloc_ok u = Inr r
          \<and> (url_netloc r \<noteq> [] \<or> url_scheme r \<noteq> ascii ''file'')
        \<longrightarrow> path netloc_ok c = Inr None)
   \<and> (\<forall>u e. uri c = Some u \<and> urlparse netloc_ok u = Inl e \<longrightarrow> path netloc_ok c = Inr None)
   \<and> (\<forall>u r. uri c = Some u \<and> urlparse netloc_ok u = Inr r \<and> url_scheme r = ascii ''file''
          \<and> url_netloc r = [] \<and> url_query r = [] \<and> url_fragment r = []
        \<longrightarrow> path netloc_ok c = Inr (Some (unquote_plus (url_path r))))
   \<and> parse_zxing (test_stdout rb True) = Inr (test_expected rb True)
   \<and> uri (test_expected rb True) = Some (ascii ''file://NETWORK_SHARE/tmp/default%20file.png'')
   \<and> path netloc_ok (test_expected rb True) = Inr None
   \<and> path netloc_ok (test_expected rb False) = Inr (Some (ascii ''/tmp/default file.png''))"
proof -
  have 1: "uri (test_expected rb True) = Some (ascii ''file://NETWORK_SHARE/tmp/default%20file.png'')"
    by (simp add: test_expected_def ascii_def)
  have 2: "uri (test_expected rb False) = Some (ascii ''file:///tmp/default%20file.png'')"
    by (simp add: test_expected_def ascii_def)
  have 3: "path netloc_ok (test_expected rb True) = Inr None"
    unfolding path_def 1 by (simp add: url_defs)
  have 4: "path netloc_ok (test_expected rb False) = Inr (Some (ascii ''/tmp/default file.png''))"
    unfolding path_def 2 by (simp add: url_defs)
  show ?thesis
    using 1 3 4 by (simp add: path_eq test_zxing_parsing)
qed

theorem path_never_raises_witness:
  "path (\<lambda>n. True) (test_expected True True) = Inr None
   \<and> uri (test_expected True True) = Some (ascii ''file://NETWORK_SHARE/tmp/default%20file.png'')
   \<and> urlparse (\<lambda>n. True) (ascii ''file://NETWORK_SHARE/tmp/default%20file.png'')
       = Inr \<lparr>url_scheme = ascii ''file'', url_netloc = ascii ''NETWORK_SHARE'',
              url_path = ascii ''/tmp/default%20file.png'', url_params = [], url_query = [],
              url_fragment = []\<rparr>"
proof -
  have 1: "urlparse (\<lambda>n. True) (ascii ''file://NETWORK_SHARE/tmp/default%20file.png'')
       = Inr \<lparr>url_scheme = ascii ''file'', url_netloc = ascii ''NETWORK_SHARE'',
              url_path = ascii ''/tmp/default%20file.png'', url_params = [], url_query = [],
              url_fragment = []\<rparr>"
    by (simp add: url_defs)
  from path_never_raises [of "\<lambda>n. True" "test_expected True True" True]
  show ?thesis using 1 by (simp add: ascii_def)
qed

text \<open>
  Claim C10. \<open>path\<close> is \<open>unquote_plus\<close> of the path component exactly when the \<open>uri\<close> parses
  with the scheme \<open>file\<close> and with empty network location, query and fragment, and \<open>None\<close>
  in every other case. \<open>unquote_plus\<close> turns each \<open>+\<close> of a path without \<open>%\<close> into a space; so
  \<open>a+b%2Bc\<close> becomes \<open>a b+c\<close>, and a \<open>uri\<close> with a query or a fragment has no \<open>path\<close>.
\<close>

theorem path_characterisation:
  "path netloc_ok c =
     Inr (case uri c of
            None \<Rightarrow> None
          | Some u \<Rightarrow>
              (case urlparse netloc_ok u of
                 Inl e \<Rightarrow> None
               | Inr r \<Rightarrow>
                   if url_scheme r = ascii ''file'' \<and> url_netloc r = [] \<and> url_query r = []
                      \<and> url_fragment r = []
                   then Some (unquote_plus (url_path r)) else None))
   \<and> (37 \<notin> set p \<longrightarrow> unquote_plus p = replace_char 43 32 p)
   \<and> path netloc_ok (c\<lparr>uri := Some (ascii ''file:///tmp/a+b%2Bc'')\<rparr>) = Inr (Some (ascii ''/tmp/a b+c''))
   \<and> path netloc_ok (c\<lparr>uri := Some (ascii ''file:///tmp/a?q'')\<rparr>) = Inr None
   \<and> path netloc_ok (c\<lparr>uri := Some (ascii ''file:///tmp/a#f'')\<rparr>) = Inr None"
proof -
  have 1: "path netloc_ok (c\<lparr>uri := Some (ascii ''file:///tmp/a+b%2Bc'')\<rparr>) = Inr (Some (ascii ''/tmp/a b+c''))"
    by (simp add: url_defs)
  have 2: "path netloc_ok (c\<lparr>uri := Some (ascii ''file:///tmp/a?q'')\<rparr>) = Inr None"
    by (simp add: url_defs)
  have 3: "path netloc_ok (c\<lparr>uri := Some (ascii ''file:///tmp/a#f'')\<rparr>) = Inr None"
    by (simp add: url_defs)
  show ?thesis
    using 1 2 3 path_eq [of netloc_ok c] unquote_plus_no_percent [of p] by simp
qed

theorem path_characterisation_witness:
  "path (\<lambda>n. True) (test_expected True False) = Inr (Some (ascii ''/tmp/default file.png''))
   \<and> unquote_plus (ascii ''/a+b'') = ascii ''/a b''"
proof -
  have 1: "37 \<notin> set (ascii ''/a+b'')" by (simp add: ascii_def)
  have 2: "urlparse (\<lambda>n. True) (ascii ''file:///tmp/default%20file.png'')
       = Inr \<lparr>url_scheme = ascii ''file'', url_netloc = [],
              url_path = ascii ''/tmp/default%20file.png'', url_params = [], url_query = [],
              url_fragment = []\<rparr>"
    by (simp add: url_defs)
  have 3: "unquote_plus (ascii ''/tmp/default%20file.png'') = ascii ''/tmp/default file.png''"
    by (simp add: url_defs)
  have 4: "uri (test_expected True False) = Some (ascii ''file:///tmp/default%20file.png'')"
    by (simp add: test_expected_def ascii_def)
  have 5: "replace_char 43 32 (ascii ''/a+b'') = ascii ''/a b''"
    by (simp add: replace_char_def ascii_def)
  from path_characterisation [of "\<lambda>n. True" "test_expected True False" "ascii ''/a+b''"]
  show ?thesis using 1 by (simp add: 2 3 4 5)
qed

section \<open>Properties of the raw bits\<close>

subsection \<open>\<open>bytes.fromhex\<close> reads pairs of hexadecimal digits\<close>

lemma fromhex_skip: "ascii_space c \<Longrightarrow> fromhex (c # s) = fromhex s"
  by (cases s) simp_all

lemma fromhex_skip_spaces:
  "\<forall>c \<in> set w. bytes_isspace c \<Longrightarrow> fromhex (map of_char w @ s) = fromhex s"
  by (induction w) (simp_all add: fromhex_skip bytes_isspace_def)

lemma hex_digit_not_space: "hex_value n = Some x \<Longrightarrow> \<not> ascii_space n"
  by (auto simp: hex_value_def ascii_space_def split: if_splits)

lemma fromhex_hex_text: "hex_text t bs \<Longrightarrow> fromhex (map of_char t) = Inr bs"
proof (induction rule: hex_text.induct)
  case (hex_end w)
  then show ?case using fromhex_skip_spaces [of w "[]"] by simp
next
  case (hex_pair w h x l y t bs)
  have "fromhex (map of_char (w @ h # l # t)) = fromhex (of_char h # of_char l # map of_char t)"
    using fromhex_skip_spaces [OF hex_pair.hyps(1)] by simp
  also have "\<dots> = Inr (char_of (x * 16 + y) # bs)"
    using hex_pair.hyps(2,3) hex_pair.IH hex_digit_not_space [OF hex_pair.hyps(2)] by simp
  finally show ?case .
qed

lemma utf8_decode_ascii: "\<forall>n \<in> set s. n < 128 \<Longrightarrow> utf8_decode_nat r s = Inr s"
  by (induction s) (simp_all add: utf8_step_def)

lemma decode_ascii: "\<forall>c \<in> set t. (of_char c :: nat) < 128 \<Longrightarrow> decode t = Inr (map of_char t)"
  by (simp add: decode_def utf8_decode_ascii)

lemma hex_value_ascii: "hex_value n = Some x \<Longrightarrow> n < 128"
  by (auto simp: hex_value_def split: if_splits)

lemma hex_text_ascii: "hex_text t bs \<Longrightarrow> \<forall>c \<in> set t. (of_char c :: nat) < 128"
  by (induction rule: hex_text.induct)
     (auto simp: bytes_isspace_def ascii_space_def dest: hex_value_ascii)

lemma decode_fromhex_hex_text:
  assumes "hex_text t bs"
  shows "decode t = Inr (map of_char t)" "fromhex (map of_char t) = Inr bs"
  using assms decode_ascii hex_text_ascii fromhex_hex_text by blast+

lemma fromhex_raises_ValueError: "fromhex s = Inl e \<Longrightarrow> e = ValueError"
  by (induction s arbitrary: e rule: fromhex.induct)
     (auto split: if_splits option.splits sum.splits)

end
